theory Spec2Isabelle
  imports Complex_Main "HOL-Library.Monad_Syntax"
begin

section \<open>Numeric model\<close>

text \<open>
  The notebook computes with numpy float arrays of length three. Numbers are modelled as
  exact reals. The two operations of the source that leave the finite numbers on finite
  input are written out as partial operations: \<open>np.sqrt\<close> of a negative number is NaN, and a
  float division by zero is an infinity or NaN. \<open>None\<close> stands for such a non-finite
  value. Every later operation of the source (a product with a finite number, a sum, a cross
  product with a finite vector, a norm) maps a non-finite operand to a non-finite result, so
  a vector computed from a non-finite factor is non-finite in every component; it is
  modelled as \<open>None\<close> as a whole. Rounding is outside the model.
\<close>

type_synonym vec = "real \<times> real \<times> real"

fun np_cross :: "vec \<Rightarrow> vec \<Rightarrow> vec" where
  "np_cross (a1, a2, a3) (b1, b2, b3) = (a2 * b3 - a3 * b2, a3 * b1 - a1 * b3, a1 * b2 - a2 * b1)"

fun np_add :: "vec \<Rightarrow> vec \<Rightarrow> vec" where
  "np_add (a1, a2, a3) (b1, b2, b3) = (a1 + b1, a2 + b2, a3 + b3)"

text \<open>Array divided by a scalar; the source only divides by a norm it has tested nonzero.\<close>

fun np_divide :: "vec \<Rightarrow> real \<Rightarrow> vec" where
  "np_divide (a1, a2, a3) s = (a1 / s, a2 / s, a3 / s)"

text \<open>Array times a finite scalar.\<close>

fun np_times :: "vec \<Rightarrow> real \<Rightarrow> vec" where
  "np_times (a1, a2, a3) s = (a1 * s, a2 * s, a3 * s)"

fun linalg_norm :: "vec \<Rightarrow> real" where
  "linalg_norm (a1, a2, a3) = sqrt (a1 ^ 2 + a2 ^ 2 + a3 ^ 2)"

text \<open>The dot product is not used by the source; the perpendicularity property is stated with it.\<close>

fun np_dot :: "vec \<Rightarrow> vec \<Rightarrow> real" where
  "np_dot (a1, a2, a3) (b1, b2, b3) = a1 * b1 + a2 * b2 + a3 * b3"

definition np_sqrt :: "real \<Rightarrow> real option" where
  "np_sqrt x = (if x < 0 then None else Some (sqrt x))"

definition true_divide :: "real \<Rightarrow> real \<Rightarrow> real option" where
  "true_divide a b = (if b = 0 then None else Some (a / b))"

text \<open>
  The scalar \<open>1 + L / np.sqrt(L**2 + d)\<close> that ends each of the three module-level field
  functions.
\<close>

definition end_correction :: "real \<Rightarrow> real \<Rightarrow> real option" where
  "end_correction L d =
     do { s \<leftarrow> np_sqrt (L ^ 2 + d); q \<leftarrow> true_divide L s; Some (1 + q) }"

text \<open>Operations of the sweeps on possibly non-finite vectors.\<close>

definition add_nf :: "vec option \<Rightarrow> vec option \<Rightarrow> vec option" where
  "add_nf a b = do { x \<leftarrow> a; y \<leftarrow> b; Some (np_add x y) }"

definition norm_nf :: "vec option \<Rightarrow> real option" where
  "norm_nf a = map_option linalg_norm a"

section \<open>The process-wide configuration\<close>

record config =
  dist_btwn_wires :: real
  rail_length :: real
  ILeft :: vec
  IRight :: vec
  IProj :: vec

definition initial_config :: config where
  "initial_config = \<lparr>dist_btwn_wires = 3, rail_length = 4,
     ILeft = (- 1, 0, 0), IRight = (1, 0, 0), IProj = (0, 1, 0)\<rparr>"

definition updateCurrent :: "real \<Rightarrow> config \<Rightarrow> config" where
  "updateCurrent i g = g\<lparr>ILeft := (- i, 0, 0), IRight := (i, 0, 0), IProj := (0, i, 0)\<rparr>"

section \<open>The module-level field functions\<close>

fun BFieldLeft :: "config \<Rightarrow> vec \<Rightarrow> vec option" where
  "BFieldLeft g (r0, r1, r2) =
     (let reff = (0, r1, r2);
          rnorm = linalg_norm reff
      in if rnorm = 0 then Some (0, 0, 0)
         else let rhat = np_divide reff rnorm
              in map_option (np_times (np_divide (np_cross (ILeft g) rhat) rnorm))
                   (end_correction (rail_length g) r1))"

fun BFieldRight :: "config \<Rightarrow> vec \<Rightarrow> vec option" where
  "BFieldRight g (r0, r1, r2) =
     (let reff = (0, r1 - dist_btwn_wires g, r2);
          rnorm = linalg_norm reff
      in if rnorm = 0 then Some (0, 0, 0)
         else let rhat = np_divide reff rnorm
              in map_option (np_times (np_divide (np_cross (IRight g) rhat) rnorm))
                   (end_correction (rail_length g) (dist_btwn_wires g - r1)))"

fun BFieldProj :: "config \<Rightarrow> vec \<Rightarrow> vec option" where
  "BFieldProj g (r0, r1, r2) =
     (let reff = (r0, 0, 0);
          rnorm = linalg_norm reff
      in if rnorm = 0 then Some (0, 0, 0)
         else let rhat = np_divide reff rnorm
              in map_option (np_times (np_divide (np_cross (IProj g) rhat) rnorm))
                   (end_correction (dist_btwn_wires g) r0))"

definition BFieldOnProjectile :: "config \<Rightarrow> real \<Rightarrow> vec option" where
  "BFieldOnProjectile g r = add_nf (BFieldLeft g (0, r, 0)) (BFieldRight g (0, r, 0))"

section \<open>The sweeps behind the plots\<close>

text \<open>
  Each interactive callback first assigns its arguments to the globals and calls
  \<open>updateCurrent\<close>, then fills the lists handed to the plotting library. A callback is
  modelled as a function from the configuration it finds to the configuration it leaves
  and the lists it plots. The lists \<open>x, y, u, v\<close> (or \<open>y, z, u, v\<close>) grow together by one
  \<open>append\<close> each per sample; they are modelled as one list of quadruples. The
  arguments \<open>d_, l_, i_\<close> of the source are written \<open>d, l, i\<close>.
\<close>

fun idx0 :: "vec \<Rightarrow> real" where "idx0 (a1, a2, a3) = a1"
fun idx1 :: "vec \<Rightarrow> real" where "idx1 (a1, a2, a3) = a2"
fun idx2 :: "vec \<Rightarrow> real" where "idx2 (a1, a2, a3) = a3"

text \<open>
  \<open>np.linspace(start, stop, num)\<close>: \<open>num\<close> evenly spaced samples, both ends included.
\<close>

definition linspace :: "real \<Rightarrow> real \<Rightarrow> nat \<Rightarrow> real list" where
  "linspace start stop num =
     map (\<lambda>k. start + real k * ((stop - start) / real (num - 1))) [0..<num]"

text \<open>\<open>np.cross\<close> and \<open>+\<close> with one possibly non-finite operand.\<close>

definition cross_nf_l :: "vec option \<Rightarrow> vec \<Rightarrow> vec option" where
  "cross_nf_l a b = map_option (\<lambda>x. np_cross x b) a"

definition cross_nf_r :: "vec \<Rightarrow> vec option \<Rightarrow> vec option" where
  "cross_nf_r a b = map_option (np_cross a) b"

definition plus_nf :: "real option \<Rightarrow> real option \<Rightarrow> real option" where
  "plus_nf a b = do { x \<leftarrow> a; y \<leftarrow> b; Some (x + y) }"

definition plotRailBField ::
  "real \<Rightarrow> real \<Rightarrow> config \<Rightarrow> config \<times> (real \<times> real \<times> real option \<times> real option) list" where
  "plotRailBField d i g =
     (let g' = updateCurrent i (g\<lparr>dist_btwn_wires := d\<rparr>);
          yrange = linspace (- 1) (dist_btwn_wires g' + 1) 10;
          zrange = linspace (- dist_btwn_wires g' / 2) (dist_btwn_wires g' / 2) 10
      in (g', concat (map (\<lambda>j. map (\<lambda>k.
            let Batjk = add_nf (BFieldLeft g' (0, j, k)) (BFieldRight g' (0, j, k))
            in (j, k, map_option idx1 Batjk, map_option idx2 Batjk)) zrange) yrange)))"

record projectile_info =
  r_values :: "real list"
  b_values :: "real option list"
  f_values :: "real option list"
  F_total :: "real option"

definition plotProjectileInfo :: "real \<Rightarrow> real \<Rightarrow> config \<Rightarrow> config \<times> projectile_info" where
  "plotProjectileInfo d i g =
     (let g' = updateCurrent i (g\<lparr>dist_btwn_wires := d\<rparr>);
          slices = 100;
          step = dist_btwn_wires g' / real slices;
          r = linspace 0 (dist_btwn_wires g') slices;
          b = map (\<lambda>i. norm_nf (BFieldOnProjectile g' i)) r;
          f = map (\<lambda>i. norm_nf (cross_nf_l (BFieldOnProjectile g' i) (IProj g'))) r
      in (g', \<lparr>r_values = r, b_values = b, f_values = f,
                F_total = foldl (\<lambda>F f_r. plus_nf F (map_option (\<lambda>t. t * step) f_r)) (Some 0) f\<rparr>))"

text \<open>
  The two functions that \<open>plotOpposingCurrentForces\<close> defines in its own body under the
  names \<open>BFieldLeft\<close> and \<open>BFieldRight\<close>. They are local to that callback: the other
  callbacks keep calling the module-level functions above. They have no end-correction
  factor, hence no non-finite result.
\<close>

fun plotOpposingCurrentForces_BFieldLeft :: "config \<Rightarrow> vec \<Rightarrow> vec" where
  "plotOpposingCurrentForces_BFieldLeft g (r0, r1, r2) =
     (let reff = (0, r1, r2);
          rnorm = linalg_norm reff
      in if rnorm = 0 then (0, 0, 0)
         else let rhat = np_divide reff rnorm
              in np_divide (np_cross (ILeft g) rhat) rnorm)"

fun plotOpposingCurrentForces_BFieldRight :: "config \<Rightarrow> vec \<Rightarrow> vec" where
  "plotOpposingCurrentForces_BFieldRight g (r0, r1, r2) =
     (let reff = (0, r1 - dist_btwn_wires g, r2);
          rnorm = linalg_norm reff
      in if rnorm = 0 then (0, 0, 0)
         else let rhat = np_divide reff rnorm
              in np_divide (np_cross (IRight g) rhat) rnorm)"

definition plotOpposingCurrentForces ::
  "real \<Rightarrow> real \<Rightarrow> real \<Rightarrow> config \<Rightarrow> config \<times> (real \<times> real \<times> real \<times> real) list" where
  "plotOpposingCurrentForces d l i g =
     (let g' = updateCurrent i (g\<lparr>dist_btwn_wires := d, rail_length := l\<rparr>)
      in (g',
          concat (map (\<lambda>i. map (\<lambda>j.
            let Fatxy = np_cross (ILeft g') (plotOpposingCurrentForces_BFieldRight g' (i, j, 0))
            in (i, j, idx0 Fatxy, idx1 Fatxy))
            (linspace 0 0 10)) (linspace (rail_length g') 0 20)) @
          concat (map (\<lambda>i. map (\<lambda>j.
            let Fatxy = np_cross (IRight g') (plotOpposingCurrentForces_BFieldLeft g' (i, j, 0))
            in (i, j, idx0 Fatxy, idx1 Fatxy))
            (linspace (dist_btwn_wires g') (dist_btwn_wires g') 10))
            (linspace (rail_length g') 0 20))))"

definition plotProjectileRepulsionForce ::
  "real \<Rightarrow> real \<Rightarrow> real \<Rightarrow> config \<Rightarrow>
     config \<times> (real \<times> real \<times> real option \<times> real option) list" where
  "plotProjectileRepulsionForce d l i g =
     (let g' = updateCurrent i (g\<lparr>dist_btwn_wires := d, rail_length := l\<rparr>)
      in (g',
          concat (map (\<lambda>i. map (\<lambda>j.
            let Fatxy = cross_nf_r (ILeft g') (BFieldProj g' (i, j, 0))
            in (i, j, map_option idx0 Fatxy, map_option idx1 Fatxy))
            (linspace 0 0 10)) (linspace (rail_length g') 0 20)) @
          concat (map (\<lambda>i. map (\<lambda>j.
            let Fatxy = cross_nf_r (IRight g') (BFieldProj g' (i, j, 0))
            in (i, j, map_option idx0 Fatxy, map_option idx1 Fatxy))
            (linspace (dist_btwn_wires g') (dist_btwn_wires g') 10))
            (linspace (rail_length g') 0 20))))"

definition calcTotalRailRepulsion ::
  "real \<Rightarrow> real \<Rightarrow> real \<Rightarrow> config \<Rightarrow> config \<times> real list \<times> real option list" where
  "calcTotalRailRepulsion d l i g =
     (let g' = updateCurrent i (g\<lparr>dist_btwn_wires := d, rail_length := l\<rparr>);
          x = linspace (rail_length g') 0 100;
          y = map (\<lambda>i. plus_nf (norm_nf (cross_nf_r (ILeft g') (BFieldProj g' (i, 0, 0))))
                           (norm_nf (cross_nf_r (ILeft g') (BFieldRight g' (i, 0, 0))))) x
      in (g', x, y))"

section \<open>The field formula as the specification words it\<close>

text \<open>
  Stated from the specification, section 4.1, for a point off the axis: with
  \<open>r = norm(effectivePoint)\<close> and \<open>rHat = effectivePoint / r\<close>, the field is
  \<open>cross(currentVector, rHat) / r\<close> scaled by \<open>1 + L / sqrt(L^2 + d)\<close>.
\<close>

definition fieldAt_formula :: "vec \<Rightarrow> vec \<Rightarrow> real \<Rightarrow> real \<Rightarrow> vec option" where
  "fieldAt_formula currentVector effectivePoint L d =
     (let r = linalg_norm effectivePoint;
          rHat = np_divide effectivePoint r
      in map_option (np_times (np_divide (np_cross currentVector rHat) r)) (end_correction L d))"


section \<open>Auxiliary notions for the proofs\<close>

text \<open>
  The magnitude, per unit current, of the field of one rail at transverse distance \<open>r\<close> on
  the projectile: the end-correction factor over the distance.
\<close>

definition wire_profile :: "real \<Rightarrow> real \<Rightarrow> real" where
  "wire_profile L r = (1 + L / sqrt (L ^ 2 + r)) / r"


section \<open>The infinite-wire field as the specification words it\<close>

text \<open>
  Stated from the specification: the plain infinite-wire expression
  \<open>cross(currentVector, rHat) / r\<close> with \<open>r = norm(effectivePoint)\<close> and
  \<open>rHat = effectivePoint / r\<close>, for a point off the axis.
\<close>

definition infinite_wire_formula :: "vec \<Rightarrow> vec \<Rightarrow> vec" where
  "infinite_wire_formula currentVector effectivePoint =
     (let r = linalg_norm effectivePoint;
          rHat = np_divide effectivePoint r
      in np_divide (np_cross currentVector rHat) r)"

section \<open>Basic facts about the model\<close>

lemma linalg_norm_eq_0_iff: "linalg_norm (a, b, c) = 0 \<longleftrightarrow> a = 0 \<and> b = 0 \<and> c = 0"
proof -
  have "a ^ 2 + b ^ 2 + c ^ 2 = 0 \<longleftrightarrow> a = 0 \<and> b = 0 \<and> c = 0"
  proof
    assume h: "a ^ 2 + b ^ 2 + c ^ 2 = 0"
    have "0 \<le> a ^ 2" "0 \<le> b ^ 2" "0 \<le> c ^ 2" by simp_all
    with h have "a ^ 2 = 0" "b ^ 2 = 0" "c ^ 2 = 0" by linarith+
    then show "a = 0 \<and> b = 0 \<and> c = 0" by simp
  qed simp
  then show ?thesis by simp
qed

lemma BFieldLeft_unfold:
  "BFieldLeft g (x, y, z) =
     (if linalg_norm (0, y, z) = 0 then Some (0, 0, 0)
      else map_option
             (np_times (np_divide (np_cross (ILeft g)
                (np_divide (0, y, z) (linalg_norm (0, y, z)))) (linalg_norm (0, y, z))))
             (end_correction (rail_length g) y))"
  by (simp add: Let_def del: linalg_norm.simps cong: if_cong)

lemma BFieldRight_unfold:
  "BFieldRight g (x, y, z) =
     (if linalg_norm (0, y - dist_btwn_wires g, z) = 0 then Some (0, 0, 0)
      else map_option
             (np_times (np_divide (np_cross (IRight g)
                (np_divide (0, y - dist_btwn_wires g, z)
                   (linalg_norm (0, y - dist_btwn_wires g, z))))
                (linalg_norm (0, y - dist_btwn_wires g, z))))
             (end_correction (rail_length g) (dist_btwn_wires g - y)))"
  by (simp add: Let_def del: linalg_norm.simps cong: if_cong)

lemma BFieldProj_unfold:
  "BFieldProj g (x, y, z) =
     (if linalg_norm (x, 0, 0) = 0 then Some (0, 0, 0)
      else map_option
             (np_times (np_divide (np_cross (IProj g)
                (np_divide (x, 0, 0) (linalg_norm (x, 0, 0)))) (linalg_norm (x, 0, 0))))
             (end_correction (dist_btwn_wires g) x))"
  by (simp add: Let_def del: linalg_norm.simps cong: if_cong)

declare BFieldLeft.simps [simp del] BFieldRight.simps [simp del] BFieldProj.simps [simp del]

lemma end_correction_None_iff: "end_correction L d = None \<longleftrightarrow> L ^ 2 + d \<le> 0"
  by (auto simp: end_correction_def np_sqrt_def true_divide_def)

lemma BFieldLeft_None_iff:
  "BFieldLeft g (x, y, z) = None \<longleftrightarrow>
     linalg_norm (0, y, z) \<noteq> 0 \<and> (rail_length g) ^ 2 + y \<le> 0"
  by (simp add: BFieldLeft_unfold end_correction_None_iff del: linalg_norm.simps)

lemma sqrt_9: "sqrt 9 = 3"
  using real_sqrt_abs [of 3] by simp

lemma cross_dot_left: "np_dot (np_times (np_divide (np_cross a (np_divide e s)) s) c) a = 0"
proof (cases "s = 0")
  case True
  then show ?thesis by (cases a, cases e) simp
next
  case False
  then show ?thesis by (cases a, cases e) (simp add: field_simps)
qed

lemma cross_dot_right: "np_dot (np_times (np_divide (np_cross a (np_divide e s)) s) c) e = 0"
proof (cases "s = 0")
  case True
  then show ?thesis by (cases a, cases e) simp
next
  case False
  then show ?thesis by (cases a, cases e) (simp add: field_simps)
qed

lemma zero_dot: "np_dot (0, 0, 0) v = 0"
  by (cases v) simp

lemma scaled_cross_perpendicular:
  assumes "(if n = 0 then Some (0, 0, 0)
            else map_option (np_times (np_divide (np_cross a (np_divide e n)) n)) f) = Some B"
  shows "np_dot B a = 0 \<and> np_dot B e = 0"
proof (cases "n = 0")
  case True
  with assms have "B = (0, 0, 0)" by simp
  then show ?thesis by (simp only: zero_dot)
next
  case False
  with assms obtain c where "B = np_times (np_divide (np_cross a (np_divide e n)) n) c"
    by auto
  then show ?thesis by (simp only: cross_dot_left cross_dot_right)
qed

lemma BFieldLeft_initial_010:
  "BFieldLeft initial_config (0, 1, 0) = Some (0, 0, - (1 + 4 / sqrt 17))"
  by (simp add: BFieldLeft_unfold initial_config_def end_correction_def np_sqrt_def
      true_divide_def)

lemma BFieldRight_initial_020:
  "BFieldRight initial_config (0, 2, 0) = Some (0, 0, - (1 + 4 / sqrt 17))"
  by (simp add: BFieldRight_unfold initial_config_def end_correction_def np_sqrt_def
      true_divide_def)

lemma BFieldProj_initial_101:
  "BFieldProj initial_config (1, 0, 1) = Some (0, 0, - (1 + 3 / sqrt 10))"
  by (simp add: BFieldProj_unfold initial_config_def end_correction_def np_sqrt_def
      true_divide_def)

lemma pos_3_sqrt10: "0 < 1 + 3 / sqrt 10"
  by (simp add: add_pos_pos)

lemma linspace_nth: "k < n \<Longrightarrow> linspace a b n ! k = a + real k * ((b - a) / real (n - 1))"
  by (simp add: linspace_def)

lemma length_linspace: "length (linspace a b n) = n"
  by (simp add: linspace_def)

lemma linspace_not_Nil: "0 < n \<Longrightarrow> linspace a b n \<noteq> []"
  using length_linspace [of a b n] by auto

lemma hd_linspace: "0 < n \<Longrightarrow> hd (linspace a b n) = a"
  using linspace_nth [of 0 n a b] length_linspace [of a b n]
  by (cases "linspace a b n") auto

lemma hd_nested_sweep:
  "xs \<noteq> [] \<Longrightarrow> ys \<noteq> [] \<Longrightarrow> hd (concat (map (\<lambda>j. map (h j) ys) xs)) = h (hd xs) (hd ys)"
  by (cases xs; cases ys) simp_all

lemma fst_plotOpposingCurrentForces:
  "fst (plotOpposingCurrentForces d l i g) =
     \<lparr>dist_btwn_wires = d, rail_length = l,
      ILeft = (- i, 0, 0), IRight = (i, 0, 0), IProj = (0, i, 0)\<rparr>"
  by (simp add: plotOpposingCurrentForces_def updateCurrent_def Let_def)

subsection \<open>Scaling the current\<close>

lemma linalg_norm_times: "linalg_norm (np_times v c) = \<bar>c\<bar> * linalg_norm v"
proof (cases v)
  case (fields a b d)
  have "(a * c) ^ 2 + (b * c) ^ 2 + (d * c) ^ 2 = c ^ 2 * (a ^ 2 + b ^ 2 + d ^ 2)"
    by (simp add: algebra_simps)
  then show ?thesis using fields by (simp add: real_sqrt_mult)
qed

lemma scaled_current_field:
  "np_times (np_divide (np_cross (np_times a k) e) n) c =
   np_times (np_times (np_divide (np_cross a e) n) c) k"
  by (cases a, cases e) (simp add: algebra_simps diff_divide_distrib)

lemma map_option_scaled:
  "map_option (np_times (np_divide (np_cross (np_times a k) e) n)) f =
   map_option (\<lambda>v. np_times v k) (map_option (np_times (np_divide (np_cross a e) n)) f)"
  by (cases f) (simp_all add: scaled_current_field del: np_times.simps np_cross.simps np_divide.simps)

lemma currents_updateCurrent:
  "ILeft (updateCurrent (k * i) g) = np_times (ILeft (updateCurrent i g)) k"
  "IRight (updateCurrent (k * i) g) = np_times (IRight (updateCurrent i g)) k"
  "IProj (updateCurrent (k * i) g) = np_times (IProj (updateCurrent i g)) k"
  "dist_btwn_wires (updateCurrent i g) = dist_btwn_wires g"
  "rail_length (updateCurrent i g) = rail_length g"
  by (simp_all add: updateCurrent_def)

lemma BFieldLeft_scaled:
  "BFieldLeft (updateCurrent (k * i) g) p =
     map_option (\<lambda>v. np_times v k) (BFieldLeft (updateCurrent i g) p)"
  by (cases p)
    (simp add: BFieldLeft_unfold currents_updateCurrent map_option_scaled
      del: np_times.simps np_cross.simps np_divide.simps linalg_norm.simps, simp)

lemma BFieldRight_scaled:
  "BFieldRight (updateCurrent (k * i) g) p =
     map_option (\<lambda>v. np_times v k) (BFieldRight (updateCurrent i g) p)"
  by (cases p)
    (simp add: BFieldRight_unfold currents_updateCurrent map_option_scaled
      del: np_times.simps np_cross.simps np_divide.simps linalg_norm.simps, simp)

lemma BFieldProj_scaled:
  "BFieldProj (updateCurrent (k * i) g) p =
     map_option (\<lambda>v. np_times v k) (BFieldProj (updateCurrent i g) p)"
  by (cases p)
    (simp add: BFieldProj_unfold currents_updateCurrent map_option_scaled
      del: np_times.simps np_cross.simps np_divide.simps linalg_norm.simps, simp)

lemma np_add_times: "np_add (np_times a k) (np_times b k) = np_times (np_add a b) k"
  by (cases a, cases b) (simp add: algebra_simps)

lemma BFieldOnProjectile_scaled:
  "BFieldOnProjectile (updateCurrent (k * i) g) r =
     map_option (\<lambda>v. np_times v k) (BFieldOnProjectile (updateCurrent i g) r)"
  unfolding BFieldOnProjectile_def BFieldLeft_scaled BFieldRight_scaled add_nf_def
  by (cases "BFieldLeft (updateCurrent i g) (0, r, 0)";
      cases "BFieldRight (updateCurrent i g) (0, r, 0)")
    (simp_all add: np_add_times del: np_times.simps np_add.simps)

lemma norm_nf_scaled:
  "norm_nf (map_option (\<lambda>v. np_times v k) B) = map_option ((*) \<bar>k\<bar>) (norm_nf B)"
  by (cases B) (simp_all add: norm_nf_def linalg_norm_times del: np_times.simps linalg_norm.simps)

lemma np_cross_times: "np_cross (np_times a k) (np_times b k) = np_times (np_cross a b) (k * k)"
  by (cases a, cases b) (simp add: algebra_simps)

lemma cross_nf_l_scaled:
  "cross_nf_l (map_option (\<lambda>v. np_times v k) B) (np_times c k) =
     map_option (\<lambda>v. np_times v (k * k)) (cross_nf_l B c)"
  by (cases B) (simp_all add: cross_nf_l_def np_cross_times del: np_times.simps np_cross.simps)

lemma cross_nf_r_scaled:
  "cross_nf_r (np_times c k) (map_option (\<lambda>v. np_times v k) B) =
     map_option (\<lambda>v. np_times v (k * k)) (cross_nf_r c B)"
  by (cases B) (simp_all add: cross_nf_r_def np_cross_times del: np_times.simps np_cross.simps)

lemma projectile_force_scaled:
  "norm_nf (cross_nf_l (BFieldOnProjectile (updateCurrent (k * i) g) r)
       (IProj (updateCurrent (k * i) g))) =
   map_option ((*) (k * k))
     (norm_nf (cross_nf_l (BFieldOnProjectile (updateCurrent i g) r) (IProj (updateCurrent i g))))"
  by (simp only: BFieldOnProjectile_scaled currents_updateCurrent cross_nf_l_scaled
      norm_nf_scaled abs_mult abs_mult_self_eq)

subsection \<open>The field on the projectile between the rails\<close>

lemma end_correction_pos: "0 < L ^ 2 + d \<Longrightarrow> end_correction L d = Some (1 + L / sqrt (L ^ 2 + d))"
  by (simp add: end_correction_def np_sqrt_def true_divide_def)

lemma sum_pos_of_pos: "0 < r \<Longrightarrow> 0 < L ^ 2 + (r::real)"
  by (simp add: add_nonneg_pos)

lemma BFieldLeft_on_projectile_factor:
  assumes "0 < r"
  shows "BFieldLeft (updateCurrent i g) (0, r, 0) =
    map_option (\<lambda>c. (0, 0, - i / r * c)) (end_correction (rail_length g) r)"
  using assms
  by (cases "end_correction (rail_length g) r")
    (simp_all add: BFieldLeft_unfold updateCurrent_def)

lemma right_rail_unit:
  assumes "0 < n"
  shows "np_times (np_divide (np_cross (i, 0, 0)
           (np_divide (0, - n, 0) (linalg_norm (0, - n, 0)))) (linalg_norm (0, - n, 0))) c
         = (0, 0, - i / n * c)"
  using assms by simp

lemma BFieldRight_on_projectile_factor:
  assumes "r < dist_btwn_wires g"
  shows "BFieldRight (updateCurrent i g) (0, r, 0) =
    map_option (\<lambda>c. (0, 0, - i / (dist_btwn_wires g - r) * c))
      (end_correction (rail_length g) (dist_btwn_wires g - r))"
proof -
  let ?n = "dist_btwn_wires g - r"
  have n: "0 < ?n" using assms by simp
  have e: "r - dist_btwn_wires g = - ?n" by simp
  have z: "linalg_norm (0, - ?n, 0) \<noteq> 0"
    using n by (simp add: linalg_norm_eq_0_iff del: linalg_norm.simps)
  have I: "IRight (updateCurrent i g) = (i, 0, 0)" by (simp add: updateCurrent_def)
  note u = BFieldRight_unfold [of "updateCurrent i g" 0 r 0,
      unfolded currents_updateCurrent(4,5) e I]
  show ?thesis
    unfolding u using z
    by (cases "end_correction (rail_length g) ?n")
      (simp_all only: if_False option.map right_rail_unit [OF n])
qed

lemma wire_profile_pos: "0 \<le> L \<Longrightarrow> 0 < r \<Longrightarrow> 0 < wire_profile L r"
  by (simp add: wire_profile_def add_pos_nonneg)

lemma BFieldLeft_on_projectile:
  assumes "0 < r"
  shows "BFieldLeft (updateCurrent i g) (0, r, 0) =
    Some (0, 0, - i * wire_profile (rail_length g) r)"
  using assms
  by (simp add: BFieldLeft_on_projectile_factor end_correction_pos sum_pos_of_pos
      wire_profile_def)

lemma BFieldRight_on_projectile:
  assumes "r < dist_btwn_wires g"
  shows "BFieldRight (updateCurrent i g) (0, r, 0) =
    Some (0, 0, - i * wire_profile (rail_length g) (dist_btwn_wires g - r))"
  using assms
  by (simp add: BFieldRight_on_projectile_factor end_correction_pos sum_pos_of_pos
      wire_profile_def)

lemma BFieldOnProjectile_between:
  assumes "0 < r" "r < dist_btwn_wires g"
  shows "BFieldOnProjectile (updateCurrent i g) r =
    Some (0, 0, - i * (wire_profile (rail_length g) r +
                      wire_profile (rail_length g) (dist_btwn_wires g - r)))"
  using assms
  by (simp add: BFieldOnProjectile_def BFieldLeft_on_projectile BFieldRight_on_projectile
      add_nf_def algebra_simps)

lemma linalg_norm_z: "linalg_norm (0, 0, z) = \<bar>z\<bar>"
  by simp

lemma field_magnitude_between:
  assumes "0 < r" "r < dist_btwn_wires g" "0 \<le> rail_length g"
  shows "norm_nf (BFieldOnProjectile (updateCurrent i g) r) =
    Some (\<bar>i\<bar> * (wire_profile (rail_length g) r +
                  wire_profile (rail_length g) (dist_btwn_wires g - r)))"
proof -
  have "0 < wire_profile (rail_length g) r + wire_profile (rail_length g) (dist_btwn_wires g - r)"
    using assms by (simp add: add_pos_pos wire_profile_pos)
  then show ?thesis
    using assms
    by (simp add: BFieldOnProjectile_between norm_nf_def abs_mult del: linalg_norm.simps
        add: linalg_norm_z)
qed

lemma denominators_mono:
  fixes u v u' v' :: real
  assumes "0 < u" "u \<le> u'" "0 < v" "v \<le> v'"
  shows "u * v * (u + v) \<le> u' * v' * (u' + v')" "0 < u * v * (u + v)"
proof -
  have "u * v \<le> u' * v'" using assms by (intro mult_mono) simp_all
  moreover have "u + v \<le> u' + v'" using assms by simp
  ultimately show "u * v * (u + v) \<le> u' * v' * (u' + v')"
    using assms by (intro mult_mono) simp_all
  show "0 < u * v * (u + v)" using assms by simp
qed

lemma inverse_sqrt_difference:
  fixes L a b :: real
  assumes "0 < a" "a \<le> b"
  shows "L / sqrt (L ^ 2 + a) - L / sqrt (L ^ 2 + b) =
         L * (b - a) / (sqrt (L ^ 2 + a) * sqrt (L ^ 2 + b) * (sqrt (L ^ 2 + a) + sqrt (L ^ 2 + b)))"
proof -
  define u where "u = sqrt (L ^ 2 + a)"
  define v where "v = sqrt (L ^ 2 + b)"
  have pa: "0 < L ^ 2 + a" and pb: "0 < L ^ 2 + b"
    using assms by (simp_all add: add_nonneg_pos)
  have u: "0 < u" and v: "0 < v" using pa pb by (simp_all add: u_def v_def)
  have u2: "u * u = L ^ 2 + a" and v2: "v * v = L ^ 2 + b"
    using pa pb by (simp_all add: u_def v_def)
  have "b - a = v * v - u * u" by (simp add: u2 v2)
  also have "\<dots> = (v - u) * (u + v)" by (simp add: algebra_simps)
  finally have h: "b - a = (v - u) * (u + v)" .
  have "L * (b - a) / (u * v * (u + v)) = L * (v - u) / (u * v)"
    using u v by (simp add: h)
  also have "\<dots> = L / u - L / v"
    using u v by (simp add: field_simps)
  finally show ?thesis by (simp add: u_def v_def)
qed

lemma profile_sum_antimono:
  fixes L a b d :: real
  assumes L: "0 \<le> L" and a: "0 < a" and ab: "a \<le> b" and s: "a + b \<le> d"
  shows "wire_profile L b + wire_profile L (d - b) \<le> wire_profile L a + wire_profile L (d - a)"
proof -
  define a' where "a' = d - b"
  define b' where "b' = d - a"
  define h where "h = b - a"
  define u where "u = sqrt (L ^ 2 + a)"
  define v where "v = sqrt (L ^ 2 + b)"
  define u' where "u' = sqrt (L ^ 2 + a')"
  define v' where "v' = sqrt (L ^ 2 + b')"
  have b: "0 < b" and a'': "0 < a'" and b'': "0 < b'" and aa': "a \<le> a'" and bb': "b \<le> b'"
    and a'b': "a' \<le> b'" and h: "0 \<le> h" and h': "h = b' - a'"
    using a ab s by (simp_all add: a'_def b'_def h_def)
  have u: "0 < u" and v: "0 < v" and u'': "0 < u'" and v'': "0 < v'"
    using a b a'' b'' by (simp_all add: u_def v_def u'_def v'_def add_nonneg_pos)
  have uu': "u \<le> u'" and vv': "v \<le> v'"
    using aa' bb' by (simp_all add: u_def v_def u'_def v'_def)
  define pa where "pa = 1 + L / u"
  define pb where "pb = 1 + L / v"
  define pa' where "pa' = 1 + L / u'"
  define pb' where "pb' = 1 + L / v'"
  have d1: "pa - pb = L * h / (u * v * (u + v))"
    using inverse_sqrt_difference [OF a ab, of L] by (simp add: pa_def pb_def u_def v_def h_def)
  have d2: "pa' - pb' = L * h / (u' * v' * (u' + v'))"
    using inverse_sqrt_difference [OF a'' a'b', of L]
    by (simp add: pa'_def pb'_def u'_def v'_def h')
  have Lh: "0 \<le> L * h" using L h by simp
  have le: "pa' - pb' \<le> pa - pb"
    unfolding d1 d2
    using denominators_mono [OF u uu' v vv'] Lh by (intro divide_left_mono) simp_all
  have nn: "0 \<le> pa' - pb'"
    unfolding d2 using Lh u'' v'' by simp
  have T2: "(pa' - pb') / b' \<le> (pa - pb) / b"
    using nn le b bb' by (intro frac_le) simp_all
  have pa_pos: "0 \<le> pa" using L u by (simp add: pa_def)
  have pa'_le: "pa' \<le> pa"
    using L u uu' by (simp add: pa_def pa'_def divide_left_mono)
  have pa'_pos: "0 \<le> pa'" using L u'' by (simp add: pa'_def)
  have prod: "a * b \<le> a' * b'" using a b aa' bb' by (intro mult_mono) simp_all
  have T1: "h * pa' / (a' * b') \<le> h * pa / (a * b)"
    using h pa'_le pa'_pos pa_pos prod a b by (intro frac_le mult_left_mono mult_nonneg_nonneg) simp_all
  have e1: "pa / a - pb / b = h * pa / (a * b) + (pa - pb) / b"
    using a b by (simp add: h_def field_simps)
  have e2: "pa' / a' - pb' / b' = h * pa' / (a' * b') + (pa' - pb') / b'"
    using a'' b'' by (simp add: h' field_simps)
  have "pa' / a' - pb' / b' \<le> pa / a - pb / b"
    unfolding e1 e2 using T1 T2 by simp
  then have "pb / b + pa' / a' \<le> pa / a + pb' / b'" by simp
  then show ?thesis
    by (simp add: wire_profile_def pa_def pb_def pa'_def pb'_def u_def v_def u'_def v'_def
        a'_def b'_def)
qed

subsection \<open>The functions local to the rail-on-rail sweep\<close>

lemma local_BFieldLeft_unfold:
  "plotOpposingCurrentForces_BFieldLeft g (x, y, z) =
     (if linalg_norm (0, y, z) = 0 then (0, 0, 0)
      else np_divide (np_cross (ILeft g)
             (np_divide (0, y, z) (linalg_norm (0, y, z)))) (linalg_norm (0, y, z)))"
  by (simp add: Let_def del: linalg_norm.simps cong: if_cong)

lemma local_BFieldRight_unfold:
  "plotOpposingCurrentForces_BFieldRight g (x, y, z) =
     (if linalg_norm (0, y - dist_btwn_wires g, z) = 0 then (0, 0, 0)
      else np_divide (np_cross (IRight g)
             (np_divide (0, y - dist_btwn_wires g, z)
                (linalg_norm (0, y - dist_btwn_wires g, z))))
             (linalg_norm (0, y - dist_btwn_wires g, z)))"
  by (simp add: Let_def del: linalg_norm.simps cong: if_cong)

declare plotOpposingCurrentForces_BFieldLeft.simps [simp del]
  plotOpposingCurrentForces_BFieldRight.simps [simp del]

lemma scaled_current_plain:
  "np_divide (np_cross (np_times a k) e) n = np_times (np_divide (np_cross a e) n) k"
  by (cases a, cases e) (simp add: algebra_simps diff_divide_distrib)

lemma local_BFieldLeft_scaled:
  "plotOpposingCurrentForces_BFieldLeft (updateCurrent (k * i) g) p =
     np_times (plotOpposingCurrentForces_BFieldLeft (updateCurrent i g) p) k"
  by (cases p)
    (simp add: local_BFieldLeft_unfold currents_updateCurrent scaled_current_plain
      del: np_times.simps np_cross.simps np_divide.simps linalg_norm.simps, simp)

lemma local_BFieldRight_scaled:
  "plotOpposingCurrentForces_BFieldRight (updateCurrent (k * i) g) p =
     np_times (plotOpposingCurrentForces_BFieldRight (updateCurrent i g) p) k"
  by (cases p)
    (simp add: local_BFieldRight_unfold currents_updateCurrent scaled_current_plain
      del: np_times.simps np_cross.simps np_divide.simps linalg_norm.simps, simp)

lemma rail_forces_scaled:
  "cross_nf_r (ILeft (updateCurrent (k * i) g)) (BFieldProj (updateCurrent (k * i) g) p) =
     map_option (\<lambda>v. np_times v (k * k))
       (cross_nf_r (ILeft (updateCurrent i g)) (BFieldProj (updateCurrent i g) p))"
  "cross_nf_r (IRight (updateCurrent (k * i) g)) (BFieldProj (updateCurrent (k * i) g) p) =
     map_option (\<lambda>v. np_times v (k * k))
       (cross_nf_r (IRight (updateCurrent i g)) (BFieldProj (updateCurrent i g) p))"
  "cross_nf_r (ILeft (updateCurrent (k * i) g)) (BFieldRight (updateCurrent (k * i) g) p) =
     map_option (\<lambda>v. np_times v (k * k))
       (cross_nf_r (ILeft (updateCurrent i g)) (BFieldRight (updateCurrent i g) p))"
  "np_cross (ILeft (updateCurrent (k * i) g))
       (plotOpposingCurrentForces_BFieldRight (updateCurrent (k * i) g) p) =
     np_times (np_cross (ILeft (updateCurrent i g))
       (plotOpposingCurrentForces_BFieldRight (updateCurrent i g) p)) (k * k)"
  "np_cross (IRight (updateCurrent (k * i) g))
       (plotOpposingCurrentForces_BFieldLeft (updateCurrent (k * i) g) p) =
     np_times (np_cross (IRight (updateCurrent i g))
       (plotOpposingCurrentForces_BFieldLeft (updateCurrent i g) p)) (k * k)"
  by (simp_all only: BFieldProj_scaled BFieldRight_scaled local_BFieldLeft_scaled
      local_BFieldRight_scaled currents_updateCurrent cross_nf_r_scaled np_cross_times)

lemma projectile_force_at_centre:
  "norm_nf (cross_nf_l
      (BFieldOnProjectile (updateCurrent i (initial_config\<lparr>rail_length := 3\<rparr>)) (3 / 2))
      (IProj (updateCurrent i (initial_config\<lparr>rail_length := 3\<rparr>)))) =
   Some (\<bar>i * i\<bar> * (2 * wire_profile 3 (3 / 2)))"
proof -
  have "BFieldOnProjectile (updateCurrent i (initial_config\<lparr>rail_length := 3\<rparr>)) (3 / 2) =
    Some (0, 0, - i * (wire_profile 3 (3 / 2) + wire_profile 3 (3 - 3 / 2)))"
    using BFieldOnProjectile_between [of "3 / 2" "initial_config\<lparr>rail_length := 3\<rparr>" i]
    by (simp add: initial_config_def)
  moreover have "0 < wire_profile 3 (3 / 2)" by (simp add: wire_profile_pos)
  ultimately show ?thesis
    by (simp add: norm_nf_def cross_nf_l_def updateCurrent_def abs_mult)
qed

subsection \<open>The samples of the sweep along the projectile\<close>

lemma b_values_nth:
  assumes "k < 100"
  shows "b_values (snd (plotProjectileInfo d i g)) ! k =
    norm_nf (BFieldOnProjectile (updateCurrent i (g\<lparr>dist_btwn_wires := d\<rparr>)) (real k * (d / 99)))"
  using assms
  by (simp add: plotProjectileInfo_def Let_def length_linspace linspace_nth
      currents_updateCurrent)

lemma length_b_values: "length (b_values (snd (plotProjectileInfo d i g))) = 100"
  by (simp add: plotProjectileInfo_def Let_def length_linspace)

lemma sample_inside:
  fixes d :: real
  assumes "0 < d" "1 \<le> k" "k \<le> 98"
  shows "0 < real k * (d / 99)" "real k * (d / 99) < d"
proof -
  define t where "t = d / 99"
  have t: "0 < t" and d: "d = 99 * t" using assms by (simp_all add: t_def)
  show "0 < real k * (d / 99)" using assms by simp
  have "real k * t \<le> 98 * t" using assms t by (intro mult_right_mono) simp_all
  also have "\<dots> < 99 * t" using t by simp
  finally show "real k * (d / 99) < d" by (simp add: t_def)
qed

lemma interior_sample:
  assumes "0 < d" "0 \<le> rail_length g" "1 \<le> k" "k \<le> 98"
  shows "b_values (snd (plotProjectileInfo d i g)) ! k =
    Some (\<bar>i\<bar> * (wire_profile (rail_length g) (real k * (d / 99)) +
                  wire_profile (rail_length g) (d - real k * (d / 99))))"
proof -
  have k: "k < 100" using assms by simp
  have r: "0 < real k * (d / 99)"
    and r': "real k * (d / 99) < dist_btwn_wires (g\<lparr>dist_btwn_wires := d\<rparr>)"
    using sample_inside [OF assms(1,3,4)] by simp_all
  have L: "0 \<le> rail_length (g\<lparr>dist_btwn_wires := d\<rparr>)" using assms(2) by simp
  show ?thesis
    unfolding b_values_nth [OF k] field_magnitude_between [OF r r' L] by simp
qed

lemma valley_down:
  fixes d L :: real
  assumes "0 < d" "0 \<le> L" "1 \<le> k" "k < 49"
  shows "wire_profile L (real (k + 1) * (d / 99)) + wire_profile L (d - real (k + 1) * (d / 99))
       \<le> wire_profile L (real k * (d / 99)) + wire_profile L (d - real k * (d / 99))"
proof (rule profile_sum_antimono)
  define t where "t = d / 99"
  have t: "0 < t" and d: "d = 99 * t" using assms by (simp_all add: t_def)
  show "0 \<le> L" by fact
  show "0 < real k * (d / 99)" using assms by simp
  show "real k * (d / 99) \<le> real (k + 1) * (d / 99)"
    using assms by (intro mult_right_mono) simp_all
  have "real k * t + real (k + 1) * t = (real k + real (k + 1)) * t"
    by (simp only: distrib_right)
  also have "\<dots> \<le> 99 * t" using assms t by (intro mult_right_mono) simp_all
  finally show "real k * (d / 99) + real (k + 1) * (d / 99) \<le> d" by (simp add: t_def)
qed

lemma valley_up:
  fixes d L :: real
  assumes "0 < d" "0 \<le> L" "50 \<le> k" "k < 98"
  shows "wire_profile L (real k * (d / 99)) + wire_profile L (d - real k * (d / 99))
       \<le> wire_profile L (real (k + 1) * (d / 99)) + wire_profile L (d - real (k + 1) * (d / 99))"
proof -
  define t where "t = d / 99"
  have t: "0 < t" and d: "d = 99 * t" using assms by (simp_all add: t_def)
  let ?a = "d - real (k + 1) * (d / 99)"
  let ?b = "d - real k * (d / 99)"
  have k1: "1 \<le> k + 1" "k + 1 \<le> 98" using assms by simp_all
  have a: "0 < ?a" using sample_inside(2) [OF assms(1) k1] by simp
  have "real k * (d / 99) \<le> real (k + 1) * (d / 99)"
    using assms by (intro mult_right_mono) simp_all
  then have ab: "?a \<le> ?b" by simp
  have "99 * t \<le> (real k + real (k + 1)) * t" using assms t by (intro mult_right_mono) simp_all
  also have "\<dots> = real k * t + real (k + 1) * t" by (simp only: distrib_right)
  finally have "d \<le> real k * (d / 99) + real (k + 1) * (d / 99)" by (simp add: t_def)
  then have s: "?a + ?b \<le> d" by simp
  have e: "d - ?a = real (k + 1) * (d / 99)" "d - ?b = real k * (d / 99)" by simp_all
  show ?thesis
    using profile_sum_antimono [OF assms(2) a ab s] unfolding e by (simp only: add.commute)
qed

lemma first_sample:
  "b_values (snd (plotProjectileInfo 3 1 initial_config)) ! 0 = Some ((1 + 4 / sqrt 19) / 3)"
proof -
  have l: "BFieldLeft (updateCurrent 1 (initial_config\<lparr>dist_btwn_wires := 3\<rparr>)) (0, 0, 0)
      = Some (0, 0, 0)"
    by (simp add: BFieldLeft_unfold)
  have r: "BFieldRight (updateCurrent 1 (initial_config\<lparr>dist_btwn_wires := 3\<rparr>)) (0, 0, 0)
      = Some (0, 0, - 1 * wire_profile 4 3)"
    using BFieldRight_on_projectile [of 0 "initial_config\<lparr>dist_btwn_wires := 3\<rparr>" 1]
    by (simp add: initial_config_def)
  have p: "0 < wire_profile 4 3" by (simp add: wire_profile_pos)
  have w: "wire_profile 4 3 = (1 + 4 / sqrt 19) / 3" by (simp add: wire_profile_def)
  show ?thesis
    using b_values_nth [of 0 3 1 initial_config] p
    by (simp add: BFieldOnProjectile_def l r add_nf_def norm_nf_def w)
qed

subsection \<open>The repulsion sweeps\<close>

lemma linspace_const: "linspace a a n = replicate n a"
  by (simp add: linspace_def map_replicate_const)

lemma local_fields_plain:
  "linalg_norm (0, y, z) \<noteq> 0 \<Longrightarrow>
     plotOpposingCurrentForces_BFieldLeft g (x, y, z) = infinite_wire_formula (ILeft g) (0, y, z)"
  "linalg_norm (0, y - dist_btwn_wires g, z) \<noteq> 0 \<Longrightarrow>
     plotOpposingCurrentForces_BFieldRight g (x, y, z) =
       infinite_wire_formula (IRight g) (0, y - dist_btwn_wires g, z)"
  by (simp_all add: local_BFieldLeft_unfold local_BFieldRight_unfold infinite_wire_formula_def
      Let_def del: linalg_norm.simps)

lemma first_projectile_repulsion_sample:
  "hd (snd (plotProjectileRepulsionForce 3 4 1 initial_config)) =
     (4, 0, Some 0, Some (- (1 + 3 / sqrt 13) / 4))"
proof -
  let ?g = "updateCurrent 1 (initial_config\<lparr>dist_btwn_wires := 3, rail_length := 4\<rparr>)"
  define c :: real where "c = - (1 + 3 / sqrt 13) / 4"
  have b: "BFieldProj ?g (4, 0, 0) = Some (0, 0, c)"
    by (simp add: BFieldProj_unfold updateCurrent_def initial_config_def end_correction_def
        np_sqrt_def true_divide_def add_divide_distrib c_def)
  have I: "ILeft ?g = (- 1, 0, 0)" by (simp add: updateCurrent_def)
  have ne: "linspace (rail_length ?g) 0 20 \<noteq> []" "linspace 0 0 10 \<noteq> []"
    by (simp_all add: linspace_not_Nil)
  have hd: "hd (linspace (rail_length ?g) 0 20) = 4" "hd (linspace 0 0 10) = 0"
    by (simp_all add: hd_linspace updateCurrent_def)
  have "hd (snd (plotProjectileRepulsionForce 3 4 1 initial_config)) = (4, 0, Some 0, Some c)"
    unfolding plotProjectileRepulsionForce_def Let_def snd_conv
    using ne by (simp add: hd_nested_sweep hd b I cross_nf_r_def)
  then show ?thesis by (simp only: c_def)
qed

section \<open>The field functions\<close>

text \<open>
  C1 (amended). Off the axis the code uses, each field function returns
  \<open>cross(currentVector, rHat) / r\<close> scaled by \<open>1 + L / sqrt(L^2 + d)\<close>, where the
  effective point is \<open>(0, y, z)\<close> with \<open>L = rail_length\<close>, \<open>d = y\<close> for the left rail,
  \<open>(0, y - dist_btwn_wires, z)\<close> with \<open>L = rail_length\<close>, \<open>d = dist_btwn_wires - y\<close> for
  the right rail, and \<open>(x, 0, 0)\<close> with \<open>L = dist_btwn_wires\<close>, \<open>d = x\<close> for the
  projectile: the projectile's effective point drops the z-coordinate as well as the
  axis-aligned y-coordinate.
\<close>

theorem field_is_formula:
  "(linalg_norm (0, y, z) \<noteq> 0 \<longrightarrow>
      BFieldLeft g (x, y, z) = fieldAt_formula (ILeft g) (0, y, z) (rail_length g) y) \<and>
   (linalg_norm (0, y - dist_btwn_wires g, z) \<noteq> 0 \<longrightarrow>
      BFieldRight g (x, y, z) =
        fieldAt_formula (IRight g) (0, y - dist_btwn_wires g, z) (rail_length g)
          (dist_btwn_wires g - y)) \<and>
   (linalg_norm (x, 0, 0) \<noteq> 0 \<longrightarrow>
      BFieldProj g (x, y, z) = fieldAt_formula (IProj g) (x, 0, 0) (dist_btwn_wires g) x)"
  by (simp add: BFieldLeft_unfold BFieldRight_unfold BFieldProj_unfold fieldAt_formula_def
      Let_def del: linalg_norm.simps)

theorem field_is_formula_witness:
  "linalg_norm (0, 1, 0) \<noteq> 0 \<and>
   BFieldLeft initial_config (0, 1, 0) =
     fieldAt_formula (ILeft initial_config) (0, 1, 0) (rail_length initial_config) 1 \<and>
   linalg_norm (0, 1 - dist_btwn_wires initial_config, 0) \<noteq> 0 \<and>
   BFieldRight initial_config (0, 1, 0) =
     fieldAt_formula (IRight initial_config) (0, 1 - dist_btwn_wires initial_config, 0)
       (rail_length initial_config) (dist_btwn_wires initial_config - 1) \<and>
   linalg_norm (1, 0, 0) \<noteq> 0 \<and>
   BFieldProj initial_config (1, 1, 0) =
     fieldAt_formula (IProj initial_config) (1, 0, 0) (dist_btwn_wires initial_config) 1"
  using field_is_formula [of 1 0 initial_config 0] field_is_formula [of 1 0 initial_config 1]
  by (simp add: initial_config_def linalg_norm_eq_0_iff del: linalg_norm.simps)

text \<open>
  C1 as stated fails for the projectile. The point \<open>(0, 0, 1)\<close> is at distance 1 from the
  projectile's axis (the y-axis), and zeroing the axis-aligned coordinate gives the effective
  point \<open>(0, 0, 1)\<close>; the formula there is \<open>(2, 0, 0)\<close>, while \<open>BFieldProj\<close> returns the
  zero vector.
\<close>

theorem field_is_formula_counterexample:
  "linalg_norm (0, 0, 1) \<noteq> 0 \<and>
   BFieldProj initial_config (0, 0, 1) = Some (0, 0, 0) \<and>
   fieldAt_formula (IProj initial_config) (0, 0, 1) (dist_btwn_wires initial_config) 0
     = Some (2, 0, 0)"
  by (simp add: BFieldProj_unfold initial_config_def fieldAt_formula_def end_correction_def
      np_sqrt_def true_divide_def sqrt_9)

text \<open>
  C2. A query point whose perpendicular distance to the segment's axis is exactly zero
  (the x-axis for the left rail, the line y = dist_btwn_wires, z = 0 for the right rail,
  the y-axis for the projectile) gets exactly the zero vector from each of the three field
  functions, a finite value, whatever the configuration.
\<close>

theorem on_axis_zero_vector:
  "(linalg_norm (0, y, z) = 0 \<longrightarrow> BFieldLeft g (x, y, z) = Some (0, 0, 0)) \<and>
   (linalg_norm (0, y - dist_btwn_wires g, z) = 0 \<longrightarrow> BFieldRight g (x, y, z) = Some (0, 0, 0)) \<and>
   (linalg_norm (x, 0, z) = 0 \<longrightarrow> BFieldProj g (x, y, z) = Some (0, 0, 0))"
  by (simp add: BFieldLeft_unfold BFieldRight_unfold BFieldProj_unfold linalg_norm_eq_0_iff
      del: linalg_norm.simps)

theorem on_axis_zero_vector_witness:
  "linalg_norm (0, 0, 0) = 0 \<and> BFieldLeft initial_config (2, 0, 0) = Some (0, 0, 0) \<and>
   linalg_norm (0, 3 - dist_btwn_wires initial_config, 0) = 0 \<and>
   BFieldRight initial_config (2, 3, 0) = Some (0, 0, 0) \<and>
   BFieldProj initial_config (0, 2, 0) = Some (0, 0, 0)"
  using on_axis_zero_vector [of 0 0 initial_config 2]
    on_axis_zero_vector [of 3 0 initial_config 2]
    on_axis_zero_vector [of 2 0 initial_config 0]
  by (simp add: initial_config_def)

text \<open>
  C3 does not hold of the code. With the rail-length slider at its minimum 1 (stored by
  \<open>plotOpposingCurrentForces\<close>) and rail distance 3, both strictly positive, the first
  point that \<open>plotRailBField\<close> samples is \<open>(0, -1, -3/2)\<close>. It is off the left rail's
  axis, \<open>rail_length^2 + y = 0\<close> there, and the end-correction factor divides by
  \<open>sqrt 0\<close>: the field of the left rail, and with it the first plotted sample, is not
  finite.
\<close>

theorem nonfinite_field_reached:
  "0 < dist_btwn_wires (fst (plotOpposingCurrentForces 3 1 1 initial_config)) \<and>
   0 < rail_length (fst (plotOpposingCurrentForces 3 1 1 initial_config)) \<and>
   linalg_norm (0, - 1, - 3 / 2) \<noteq> 0 \<and>
   BFieldLeft (fst (plotOpposingCurrentForces 3 1 1 initial_config)) (0, - 1, - 3 / 2) = None \<and>
   hd (snd (plotRailBField 3 1 (fst (plotOpposingCurrentForces 3 1 1 initial_config))))
     = (- 1, - 3 / 2, None, None)"
proof -
  let ?g = "fst (plotOpposingCurrentForces 3 1 1 initial_config)"
  have n: "linalg_norm (0, - 1, - 3 / 2) \<noteq> 0"
    by (simp add: linalg_norm_eq_0_iff del: linalg_norm.simps)
  have b: "BFieldLeft ?g (0, - 1, - 3 / 2) = None"
    using n by (simp add: BFieldLeft_None_iff fst_plotOpposingCurrentForces del: linalg_norm.simps)
  have h: "hd (snd (plotRailBField 3 1 ?g)) = (- 1, - 3 / 2, None, None)"
    unfolding plotRailBField_def Let_def snd_conv
    by (subst hd_nested_sweep)
      (simp_all add: linspace_not_Nil hd_linspace add_nf_def updateCurrent_def
        BFieldLeft_None_iff [THEN iffD2] linalg_norm_eq_0_iff fst_plotOpposingCurrentForces
        del: linalg_norm.simps)
  show ?thesis using n b h by (simp add: fst_plotOpposingCurrentForces)
qed

text \<open>
  C4 (amended). Replacing the current \<open>i\<close> by \<open>2 * i\<close> with \<open>updateCurrent\<close>, all else
  fixed, doubles every field vector and hence every field magnitude, and multiplies the
  magnitude of the force on the projectile, \<open>norm(cross(BFieldOnProjectile(r), IProj))\<close>, by
  four: the field and the current vector it is crossed with both double. The force vectors
  on the rails, \<open>cross(ILeft, B)\<close> and \<open>cross(IRight, B)\<close>, are multiplied by four as well.
\<close>

theorem current_doubling:
  "BFieldLeft (updateCurrent (2 * i) g) p =
     map_option (\<lambda>v. np_times v 2) (BFieldLeft (updateCurrent i g) p) \<and>
   BFieldRight (updateCurrent (2 * i) g) p =
     map_option (\<lambda>v. np_times v 2) (BFieldRight (updateCurrent i g) p) \<and>
   BFieldProj (updateCurrent (2 * i) g) p =
     map_option (\<lambda>v. np_times v 2) (BFieldProj (updateCurrent i g) p) \<and>
   plotOpposingCurrentForces_BFieldLeft (updateCurrent (2 * i) g) p =
     np_times (plotOpposingCurrentForces_BFieldLeft (updateCurrent i g) p) 2 \<and>
   plotOpposingCurrentForces_BFieldRight (updateCurrent (2 * i) g) p =
     np_times (plotOpposingCurrentForces_BFieldRight (updateCurrent i g) p) 2 \<and>
   norm_nf (BFieldLeft (updateCurrent (2 * i) g) p) =
     map_option ((*) 2) (norm_nf (BFieldLeft (updateCurrent i g) p)) \<and>
   norm_nf (BFieldRight (updateCurrent (2 * i) g) p) =
     map_option ((*) 2) (norm_nf (BFieldRight (updateCurrent i g) p)) \<and>
   norm_nf (BFieldProj (updateCurrent (2 * i) g) p) =
     map_option ((*) 2) (norm_nf (BFieldProj (updateCurrent i g) p)) \<and>
   norm_nf (BFieldOnProjectile (updateCurrent (2 * i) g) r) =
     map_option ((*) 2) (norm_nf (BFieldOnProjectile (updateCurrent i g) r)) \<and>
   norm_nf (cross_nf_l (BFieldOnProjectile (updateCurrent (2 * i) g) r)
       (IProj (updateCurrent (2 * i) g))) =
     map_option ((*) 4)
       (norm_nf (cross_nf_l (BFieldOnProjectile (updateCurrent i g) r)
          (IProj (updateCurrent i g)))) \<and>
   cross_nf_r (ILeft (updateCurrent (2 * i) g)) (BFieldProj (updateCurrent (2 * i) g) p) =
     map_option (\<lambda>v. np_times v 4)
       (cross_nf_r (ILeft (updateCurrent i g)) (BFieldProj (updateCurrent i g) p)) \<and>
   cross_nf_r (IRight (updateCurrent (2 * i) g)) (BFieldProj (updateCurrent (2 * i) g) p) =
     map_option (\<lambda>v. np_times v 4)
       (cross_nf_r (IRight (updateCurrent i g)) (BFieldProj (updateCurrent i g) p)) \<and>
   cross_nf_r (ILeft (updateCurrent (2 * i) g)) (BFieldRight (updateCurrent (2 * i) g) p) =
     map_option (\<lambda>v. np_times v 4)
       (cross_nf_r (ILeft (updateCurrent i g)) (BFieldRight (updateCurrent i g) p)) \<and>
   np_cross (ILeft (updateCurrent (2 * i) g))
       (plotOpposingCurrentForces_BFieldRight (updateCurrent (2 * i) g) p) =
     np_times (np_cross (ILeft (updateCurrent i g))
       (plotOpposingCurrentForces_BFieldRight (updateCurrent i g) p)) 4 \<and>
   np_cross (IRight (updateCurrent (2 * i) g))
       (plotOpposingCurrentForces_BFieldLeft (updateCurrent (2 * i) g) p) =
     np_times (np_cross (IRight (updateCurrent i g))
       (plotOpposingCurrentForces_BFieldLeft (updateCurrent i g) p)) 4"
  using projectile_force_scaled [of 2 i g r] rail_forces_scaled [of 2 i g p]
  by (simp add: BFieldLeft_scaled BFieldRight_scaled BFieldProj_scaled BFieldOnProjectile_scaled
      local_BFieldLeft_scaled local_BFieldRight_scaled norm_nf_scaled
      del: np_times.simps np_cross.simps)

text \<open>
  C4 as stated fails for the force. With rail distance 3, rail length 3 and \<open>r = 1.5\<close>, the
  force magnitude is \<open>4/3 * (1 + 3 / sqrt(21/2))\<close> at current 1 and four times that at
  current 2, not twice.
\<close>

theorem current_doubling_counterexample:
  "norm_nf (cross_nf_l
      (BFieldOnProjectile (updateCurrent 1 (initial_config\<lparr>rail_length := 3\<rparr>)) (3 / 2))
      (IProj (updateCurrent 1 (initial_config\<lparr>rail_length := 3\<rparr>)))) =
     Some (4 / 3 * (1 + 3 / sqrt (21 / 2))) \<and>
   norm_nf (cross_nf_l
      (BFieldOnProjectile (updateCurrent 2 (initial_config\<lparr>rail_length := 3\<rparr>)) (3 / 2))
      (IProj (updateCurrent 2 (initial_config\<lparr>rail_length := 3\<rparr>)))) =
     Some (16 / 3 * (1 + 3 / sqrt (21 / 2))) \<and>
   16 / 3 * (1 + 3 / sqrt (21 / 2)) \<noteq> 2 * (4 / 3 * (1 + 3 / sqrt (21 / 2)))"
proof -
  have w: "wire_profile 3 (3 / 2) = 2 / 3 * (1 + 3 / sqrt (21 / 2))"
    by (simp add: wire_profile_def)
  have "0 < 1 + 3 / sqrt (21 / 2)" by (simp add: add_pos_pos)
  then show ?thesis
    using projectile_force_at_centre [of 1] projectile_force_at_centre [of 2] by (simp add: w)
qed


text \<open>
  C5 (amended). Whenever a field function returns a finite vector, that vector is
  perpendicular to the segment's current vector and to the effective point the code builds:
  \<open>(0, y, z)\<close> for the left rail, \<open>(0, y - dist_btwn_wires, z)\<close> for the right rail and
  \<open>(x, 0, 0)\<close> for the projectile. Both dot products are exactly zero.
\<close>

theorem field_perpendicular:
  "(BFieldLeft g (x, y, z) = Some B \<longrightarrow>
      np_dot B (ILeft g) = 0 \<and> np_dot B (0, y, z) = 0) \<and>
   (BFieldRight g (x, y, z) = Some B \<longrightarrow>
      np_dot B (IRight g) = 0 \<and> np_dot B (0, y - dist_btwn_wires g, z) = 0) \<and>
   (BFieldProj g (x, y, z) = Some B \<longrightarrow>
      np_dot B (IProj g) = 0 \<and> np_dot B (x, 0, 0) = 0)"
proof (intro conjI impI)
  assume "BFieldLeft g (x, y, z) = Some B"
  then show "np_dot B (ILeft g) = 0" "np_dot B (0, y, z) = 0"
    using scaled_cross_perpendicular [of "linalg_norm (0, y, z)" "ILeft g" "(0, y, z)" _ B]
    by (simp_all only: BFieldLeft_unfold)
next
  assume "BFieldRight g (x, y, z) = Some B"
  then show "np_dot B (IRight g) = 0" "np_dot B (0, y - dist_btwn_wires g, z) = 0"
    using scaled_cross_perpendicular [of "linalg_norm (0, y - dist_btwn_wires g, z)"
        "IRight g" "(0, y - dist_btwn_wires g, z)" _ B]
    by (simp_all only: BFieldRight_unfold)
next
  assume "BFieldProj g (x, y, z) = Some B"
  then show "np_dot B (IProj g) = 0" "np_dot B (x, 0, 0) = 0"
    using scaled_cross_perpendicular [of "linalg_norm (x, 0, 0)" "IProj g" "(x, 0, 0)" _ B]
    by (simp_all only: BFieldProj_unfold)
qed

theorem field_perpendicular_witness:
  "BFieldLeft initial_config (0, 1, 0) = Some (0, 0, - (1 + 4 / sqrt 17)) \<and>
   np_dot (0, 0, - (1 + 4 / sqrt 17)) (ILeft initial_config) = 0 \<and>
   np_dot (0, 0, - (1 + 4 / sqrt 17)) (0, 1, 0) = 0 \<and>
   BFieldRight initial_config (0, 2, 0) = Some (0, 0, - (1 + 4 / sqrt 17)) \<and>
   np_dot (0, 0, - (1 + 4 / sqrt 17)) (IRight initial_config) = 0 \<and>
   np_dot (0, 0, - (1 + 4 / sqrt 17)) (0, 2 - dist_btwn_wires initial_config, 0) = 0 \<and>
   BFieldProj initial_config (1, 0, 1) = Some (0, 0, - (1 + 3 / sqrt 10)) \<and>
   np_dot (0, 0, - (1 + 3 / sqrt 10)) (IProj initial_config) = 0 \<and>
   np_dot (0, 0, - (1 + 3 / sqrt 10)) (1, 0, 0) = 0"
  using field_perpendicular [of initial_config 0 1 0 "(0, 0, - (1 + 4 / sqrt 17))"]
    field_perpendicular [of initial_config 0 2 0 "(0, 0, - (1 + 4 / sqrt 17))"]
    field_perpendicular [of initial_config 1 0 1 "(0, 0, - (1 + 3 / sqrt 10))"]
    BFieldLeft_initial_010 BFieldRight_initial_020 BFieldProj_initial_101
  by blast

text \<open>
  C5 as stated fails for the projectile. The point \<open>(1, 0, 1)\<close> is off the projectile's
  axis and its perpendicular displacement from the axis is \<open>(1, 0, 1)\<close>; the field
  \<open>BFieldProj\<close> returns there is finite and its dot product with that displacement is not
  zero. It also fails where the result is not finite: at \<open>(0, -16, 1)\<close>, off the left rail's
  axis, \<open>BFieldLeft\<close> returns no finite vector, so no dot product is zero.
\<close>

theorem field_perpendicular_counterexample:
  "linalg_norm (1, 0, 1) \<noteq> 0 \<and>
   BFieldProj initial_config (1, 0, 1) = Some (0, 0, - (1 + 3 / sqrt 10)) \<and>
   np_dot (0, 0, - (1 + 3 / sqrt 10)) (1, 0, 1) \<noteq> 0 \<and>
   linalg_norm (0, - 16, 1) \<noteq> 0 \<and>
   BFieldLeft initial_config (0, - 16, 1) = None"
proof -
  have n: "linalg_norm (0, - 16, 1) \<noteq> 0"
    by (simp add: linalg_norm_eq_0_iff del: linalg_norm.simps)
  then have "BFieldLeft initial_config (0, - 16, 1) = None"
    by (simp add: BFieldLeft_None_iff initial_config_def del: linalg_norm.simps)
  with n show ?thesis
    using BFieldProj_initial_101 pos_3_sqrt10 by simp
qed

section \<open>The sweep along the projectile\<close>

text \<open>
  C6 (amended). For every rail distance \<open>d > 0\<close>, rail length \<open>\<ge> 0\<close> and current, in
  particular for rail distance 3, rail length 4 and current 1, the 100 field magnitudes
  that \<open>plotProjectileInfo\<close> plots are finite at the 98 interior samples 1 to 98, where they
  do not increase from sample 1 to sample 49 and do not decrease from sample 50 to
  sample 98, so that the least interior magnitude is at one of the two middle samples 49
  and 50, next to \<open>r = d / 2\<close>. The two end samples 0 and 99 lie on a rail and are not
  part of the statement.
\<close>

theorem projectile_field_valley:
  assumes "0 < d" and "0 \<le> rail_length g"
  shows "length (b_values (snd (plotProjectileInfo d i g))) = 100 \<and>
    (\<forall>k. 1 \<le> k \<and> k < 49 \<longrightarrow>
       (\<exists>u v. b_values (snd (plotProjectileInfo d i g)) ! k = Some u \<and>
              b_values (snd (plotProjectileInfo d i g)) ! (k + 1) = Some v \<and> v \<le> u)) \<and>
    (\<forall>k. 50 \<le> k \<and> k < 98 \<longrightarrow>
       (\<exists>u v. b_values (snd (plotProjectileInfo d i g)) ! k = Some u \<and>
              b_values (snd (plotProjectileInfo d i g)) ! (k + 1) = Some v \<and> u \<le> v))"
proof (intro conjI allI impI)
  show "length (b_values (snd (plotProjectileInfo d i g))) = 100"
    by (rule length_b_values)
next
  fix k :: nat assume k: "1 \<le> k \<and> k < 49"
  then have k1: "1 \<le> k" and k2: "k \<le> 98" and k3: "1 \<le> k + 1" and k4: "k + 1 \<le> 98"
    and k5: "k < 49" by simp_all
  show "\<exists>u v. b_values (snd (plotProjectileInfo d i g)) ! k = Some u \<and>
              b_values (snd (plotProjectileInfo d i g)) ! (k + 1) = Some v \<and> v \<le> u"
    unfolding interior_sample [OF assms k1 k2] interior_sample [OF assms k3 k4]
    using valley_down [OF assms k1 k5] by (simp add: mult_left_mono del: of_nat_add of_nat_Suc)
next
  fix k :: nat assume k: "50 \<le> k \<and> k < 98"
  then have k1: "1 \<le> k" and k2: "k \<le> 98" and k3: "1 \<le> k + 1" and k4: "k + 1 \<le> 98"
    and k5: "50 \<le> k" and k6: "k < 98" by simp_all
  show "\<exists>u v. b_values (snd (plotProjectileInfo d i g)) ! k = Some u \<and>
              b_values (snd (plotProjectileInfo d i g)) ! (k + 1) = Some v \<and> u \<le> v"
    unfolding interior_sample [OF assms k1 k2] interior_sample [OF assms k3 k4]
    using valley_up [OF assms k5 k6] by (simp add: mult_left_mono del: of_nat_add of_nat_Suc)
qed

theorem projectile_field_valley_witness:
  "(0::real) < 3 \<and> 0 \<le> rail_length initial_config \<and>
   (\<exists>u v. b_values (snd (plotProjectileInfo 3 1 initial_config)) ! 1 = Some u \<and>
          b_values (snd (plotProjectileInfo 3 1 initial_config)) ! 2 = Some v \<and> v \<le> u) \<and>
   (\<exists>u v. b_values (snd (plotProjectileInfo 3 1 initial_config)) ! 50 = Some u \<and>
          b_values (snd (plotProjectileInfo 3 1 initial_config)) ! 51 = Some v \<and> u \<le> v)"
proof -
  have a: "(0::real) < 3" by simp
  have b: "0 \<le> rail_length initial_config" by (simp add: initial_config_def)
  note h = projectile_field_valley [OF a b, of 1]
  have e: "(1::nat) + 1 = 2" "(50::nat) + 1 = 51" by simp_all
  have "\<exists>u v. b_values (snd (plotProjectileInfo 3 1 initial_config)) ! 1 = Some u \<and>
          b_values (snd (plotProjectileInfo 3 1 initial_config)) ! (1 + 1) = Some v \<and> v \<le> u"
    by (rule h [THEN conjunct2, THEN conjunct1, rule_format, of 1]) simp
  moreover have "\<exists>u v. b_values (snd (plotProjectileInfo 3 1 initial_config)) ! 50 = Some u \<and>
          b_values (snd (plotProjectileInfo 3 1 initial_config)) ! (50 + 1) = Some v \<and> u \<le> v"
    by (rule h [THEN conjunct2, THEN conjunct2, rule_format, of 50]) simp
  ultimately show ?thesis using a b unfolding e by blast
qed

text \<open>
  C6 as stated fails at the ends of the sweep. Sample 0 lies on the left rail, whose
  field is the zero vector there, so only the right rail contributes: the magnitude
  \<open>(1 + 4 / sqrt 19) / 3\<close> at sample 0 is smaller than the magnitude at sample 1, and the
  sequence increases when moving from the rail towards the midpoint.
\<close>

theorem projectile_field_valley_counterexample:
  "b_values (snd (plotProjectileInfo 3 1 initial_config)) ! 0 = Some ((1 + 4 / sqrt 19) / 3) \<and>
   (\<exists>v. b_values (snd (plotProjectileInfo 3 1 initial_config)) ! 1 = Some v \<and>
        (1 + 4 / sqrt 19) / 3 < v)"
proof -
  have a: "(0::real) < 3" by simp
  have b: "0 \<le> rail_length initial_config" by (simp add: initial_config_def)
  have s: "b_values (snd (plotProjectileInfo 3 1 initial_config)) ! 1 =
     Some (wire_profile 4 (1 / 33) + wire_profile 4 (3 - 1 / 33))"
    using interior_sample [OF a b, of 1 1] by (simp add: initial_config_def)
  have "4 / sqrt 19 \<le> 4 / 1" by (intro divide_left_mono) simp_all
  then have u: "(1 + 4 / sqrt 19) / 3 < 33" by simp
  have "0 \<le> 4 / sqrt (4 ^ 2 + 1 / 33)" by simp
  then have "33 \<le> wire_profile 4 (1 / 33)" by (simp add: wire_profile_def)
  moreover have "0 < wire_profile 4 (3 - 1 / 33)" by (simp add: wire_profile_pos)
  ultimately have "33 < wire_profile 4 (1 / 33) + wire_profile 4 (3 - 1 / 33)" by simp
  with u have "(1 + 4 / sqrt 19) / 3 < wire_profile 4 (1 / 33) + wire_profile 4 (3 - 1 / 33)"
    by simp
  then show ?thesis using first_sample s by simp
qed

section \<open>The repulsion sweeps\<close>

text \<open>
  C7 (amended). The functions that \<open>plotOpposingCurrentForces\<close> defines in its own body
  have no end-correction factor: off the axis they return the plain infinite-wire expression
  \<open>cross(currentVector, rHat) / r\<close>. For a nonzero rail distance every force sample of
  that callback, the rail-on-rail repulsion sweep, is the cross product of a rail current
  with the plain infinite-wire field of the other rail.
\<close>

theorem opposing_forces_infinite_wire:
  "(linalg_norm (0, y, z) \<noteq> 0 \<longrightarrow>
      plotOpposingCurrentForces_BFieldLeft g (x, y, z) =
        infinite_wire_formula (ILeft g) (0, y, z)) \<and>
   (linalg_norm (0, y - dist_btwn_wires g, z) \<noteq> 0 \<longrightarrow>
      plotOpposingCurrentForces_BFieldRight g (x, y, z) =
        infinite_wire_formula (IRight g) (0, y - dist_btwn_wires g, z)) \<and>
   (d \<noteq> 0 \<longrightarrow>
      snd (plotOpposingCurrentForces d l i g) =
        concat (map (\<lambda>x. map (\<lambda>y.
          let Fatxy = np_cross (- i, 0, 0) (infinite_wire_formula (i, 0, 0) (0, y - d, 0))
          in (x, y, idx0 Fatxy, idx1 Fatxy)) (linspace 0 0 10)) (linspace l 0 20)) @
        concat (map (\<lambda>x. map (\<lambda>y.
          let Fatxy = np_cross (i, 0, 0) (infinite_wire_formula (- i, 0, 0) (0, y, 0))
          in (x, y, idx0 Fatxy, idx1 Fatxy)) (linspace d d 10)) (linspace l 0 20)))"
proof (intro conjI impI)
  assume d: "d \<noteq> 0"
  let ?g = "updateCurrent i (g\<lparr>dist_btwn_wires := d, rail_length := l\<rparr>)"
  have n: "linalg_norm (0, 0 - dist_btwn_wires ?g, 0) \<noteq> 0" "linalg_norm (0, d, 0) \<noteq> 0"
    using d by (simp_all add: updateCurrent_def)
  have r: "plotOpposingCurrentForces_BFieldRight ?g (x, 0, 0) =
      infinite_wire_formula (i, 0, 0) (0, 0 - d, 0)" for x
    using local_fields_plain(2) [OF n(1), of x] by (simp add: updateCurrent_def)
  have l: "plotOpposingCurrentForces_BFieldLeft ?g (x, d, 0) =
      infinite_wire_formula (- i, 0, 0) (0, d, 0)" for x
    using local_fields_plain(1) [OF n(2), of ?g x] by (simp add: updateCurrent_def)
  show "snd (plotOpposingCurrentForces d l i g) =
        concat (map (\<lambda>x. map (\<lambda>y.
          let Fatxy = np_cross (- i, 0, 0) (infinite_wire_formula (i, 0, 0) (0, y - d, 0))
          in (x, y, idx0 Fatxy, idx1 Fatxy)) (linspace 0 0 10)) (linspace l 0 20)) @
        concat (map (\<lambda>x. map (\<lambda>y.
          let Fatxy = np_cross (i, 0, 0) (infinite_wire_formula (- i, 0, 0) (0, y, 0))
          in (x, y, idx0 Fatxy, idx1 Fatxy)) (linspace d d 10)) (linspace l 0 20))"
    unfolding plotOpposingCurrentForces_def Let_def snd_conv linspace_const map_replicate
    by (simp add: updateCurrent_def r [unfolded updateCurrent_def]
        l [unfolded updateCurrent_def] del: np_cross.simps)
qed (simp_all add: local_fields_plain del: linalg_norm.simps)

theorem opposing_forces_infinite_wire_witness:
  "linalg_norm (0, 1, 0) \<noteq> 0 \<and>
   plotOpposingCurrentForces_BFieldLeft initial_config (0, 1, 0) =
     infinite_wire_formula (ILeft initial_config) (0, 1, 0) \<and>
   linalg_norm (0, 1 - dist_btwn_wires initial_config, 0) \<noteq> 0 \<and>
   plotOpposingCurrentForces_BFieldRight initial_config (0, 1, 0) =
     infinite_wire_formula (IRight initial_config) (0, 1 - dist_btwn_wires initial_config, 0) \<and>
   (3::real) \<noteq> 0 \<and>
   snd (plotOpposingCurrentForces 3 4 1 initial_config) =
        concat (map (\<lambda>x. map (\<lambda>y.
          let Fatxy = np_cross (- 1, 0, 0) (infinite_wire_formula (1, 0, 0) (0, y - 3, 0))
          in (x, y, idx0 Fatxy, idx1 Fatxy)) (linspace 0 0 10)) (linspace 4 0 20)) @
        concat (map (\<lambda>x. map (\<lambda>y.
          let Fatxy = np_cross (1, 0, 0) (infinite_wire_formula (- 1, 0, 0) (0, y, 0))
          in (x, y, idx0 Fatxy, idx1 Fatxy)) (linspace 3 3 10)) (linspace 4 0 20))"
proof -
  have n: "linalg_norm (0, 1, 0) \<noteq> 0" "linalg_norm (0, 1 - dist_btwn_wires initial_config, 0) \<noteq> 0"
    by (simp_all add: initial_config_def)
  have d: "(3::real) \<noteq> 0" by simp
  note h = opposing_forces_infinite_wire [where y = 1 and z = 0 and g = initial_config
      and x = 0 and d = 3 and l = 4 and i = 1]
  show ?thesis
    using n d h [THEN conjunct1, rule_format, OF n(1)]
      h [THEN conjunct2, THEN conjunct1, rule_format, OF n(2)]
      h [THEN conjunct2, THEN conjunct2, rule_format, OF d]
    by blast
qed

text \<open>
  C7 as stated fails for the sweep of the projectile's field over the rails. The first
  sample of \<open>plotProjectileRepulsionForce\<close> with rail distance 3, rail length 4 and current 1
  is at \<open>(4, 0, 0)\<close>; the field entering the cross product there is that of the module-level
  \<open>BFieldProj\<close>, with its end-correction factor \<open>1 + 3 / sqrt 13\<close>, and the plotted force
  component differs from the one the plain infinite-wire field gives.
\<close>

theorem opposing_forces_infinite_wire_counterexample:
  "hd (snd (plotProjectileRepulsionForce 3 4 1 initial_config)) =
     (4, 0, Some 0, Some (- (1 + 3 / sqrt 13) / 4)) \<and>
   np_cross (- 1, 0, 0) (infinite_wire_formula (0, 1, 0) (4, 0, 0)) = (0, - 1 / 4, 0) \<and>
   - (1 + 3 / sqrt 13) / 4 \<noteq> (- 1 / 4 :: real)"
proof -
  have "0 < 3 / sqrt 13" by simp
  then have "- (1 + 3 / sqrt 13) / 4 \<noteq> (- 1 / 4 :: real)" by simp
  moreover have "np_cross (- 1, 0, 0) (infinite_wire_formula (0, 1, 0) (4, 0, 0)) = (0, - 1 / 4, 0)"
    by (simp add: infinite_wire_formula_def)
  ultimately show ?thesis using first_projectile_repulsion_sample by simp
qed

section \<open>The configuration\<close>

text \<open>
  C8. The configuration part of every callback stores its arguments as they are, whatever
  their sign, and always returns a configuration: there is no check and no error result.
  \<open>plotRailBField\<close> and \<open>plotProjectileInfo\<close> take no rail length and leave it as it was.
\<close>

theorem configuration_stored_unchecked:
  "updateCurrent i g = g\<lparr>ILeft := (- i, 0, 0), IRight := (i, 0, 0), IProj := (0, i, 0)\<rparr> \<and>
   fst (plotRailBField d i g) =
     \<lparr>dist_btwn_wires = d, rail_length = rail_length g,
      ILeft = (- i, 0, 0), IRight = (i, 0, 0), IProj = (0, i, 0)\<rparr> \<and>
   fst (plotProjectileInfo d i g) =
     \<lparr>dist_btwn_wires = d, rail_length = rail_length g,
      ILeft = (- i, 0, 0), IRight = (i, 0, 0), IProj = (0, i, 0)\<rparr> \<and>
   fst (plotOpposingCurrentForces d l i g) =
     \<lparr>dist_btwn_wires = d, rail_length = l,
      ILeft = (- i, 0, 0), IRight = (i, 0, 0), IProj = (0, i, 0)\<rparr> \<and>
   fst (plotProjectileRepulsionForce d l i g) =
     \<lparr>dist_btwn_wires = d, rail_length = l,
      ILeft = (- i, 0, 0), IRight = (i, 0, 0), IProj = (0, i, 0)\<rparr> \<and>
   fst (calcTotalRailRepulsion d l i g) =
     \<lparr>dist_btwn_wires = d, rail_length = l,
      ILeft = (- i, 0, 0), IRight = (i, 0, 0), IProj = (0, i, 0)\<rparr>"
  by (simp add: updateCurrent_def plotRailBField_def plotProjectileInfo_def
      plotOpposingCurrentForces_def plotProjectileRepulsionForce_def
      calcTotalRailRepulsion_def Let_def)

section \<open>Coordinates the field functions ignore\<close>

text \<open>
  C9. \<open>BFieldProj\<close> returns the zero vector at every point whose x-coordinate is 0, on the
  whole y-z plane, and its value depends on the x-coordinate of the query point only.
\<close>

theorem BFieldProj_only_x:
  "BFieldProj g (0, y, z) = Some (0, 0, 0) \<and> BFieldProj g (x, y, z) = BFieldProj g (x, y', z')"
  by (simp add: BFieldProj_unfold)

text \<open>
  C10. \<open>BFieldLeft\<close> and \<open>BFieldRight\<close> do not depend on the x-coordinate of the query
  point: the field is the same all along the rail.
\<close>

theorem rail_field_x_invariant:
  "BFieldLeft g (x, y, z) = BFieldLeft g (x', y, z) \<and>
   BFieldRight g (x, y, z) = BFieldRight g (x', y, z)"
  by (simp add: BFieldLeft_unfold BFieldRight_unfold)

end
